theory Spec2Isabelle
  imports Main "HOL-Library.Word"
begin

unbundle bit_operations_syntax

section \<open>Python values that reach a ROP chain\<close>

text \<open>
  A gadget as \<open>ROP.__load\<close> builds it (\<open>Gadget(addr, insns, regs, sp_move)\<close>) and as
  \<open>search_iter\<close>, \<open>search\<close> and \<open>find_gadget\<close> read it: its address, its instruction
  strings, the registers it touches and the number of bytes it moves the stack pointer.
\<close>

record gadget =
  address :: int
  insns :: "string list"
  regs :: "string list"
  move :: int

text \<open>
  The untyped values the source stores in chains, call arguments and frame registers.
  \<open>Padding\<close> is the class of \<open>rop.py\<close>; \<open>CurrentStackPointer\<close>, \<open>NextGadgetAddress\<close>
  and \<open>AppendedArgument\<close> are the marker classes imported from \<open>rop/call.py\<close>.
  \<open>CallShorthand attr\<close> is the function \<open>call\<close> that \<open>ROP.__getattr__\<close> returns for a name
  \<open>attr\<close> that is no gadget shorthand (calling it is \<open>self.call(attr, args)\<close>).
\<close>

datatype pyval =
    PyInt int
  | PyStr string
  | PyGadget gadget
  | Padding
  | CurrentStackPointer
  | NextGadgetAddress
  | AppendedArgument "pyval list"
  | CallShorthand string
  | PyNone

text \<open>
  What the source raises, as values: the \<open>log.error\<close> calls of \<open>srop.py\<close> and \<open>rop.py\<close>
  (each raises), and the built-in exceptions of the operations the model keeps.
\<close>

datatype error =
    UnknownRegister string
  | ARMStackPointerAlignment
  | CannotAppendMigrated
  | CannotMigrate
  | CouldNotResolve string
  | NoSyscallInstruction
  | NoAdjustGadget int
  | GadgetNotFound string
  | KeyError string
  | TypeError
  | ValueError
  | AttributeError
  | ZeroDivisionError
  | FlatError

type_synonym byte = "8 word"

section \<open>srop.py: the signal-return frame\<close>

datatype arch = I386 | AMD64 | ARM | AARCH64 | THUMB | MIPS

text \<open>The \<open>context\<close> field of the table \<open>registers\<close>; an architecture without a row is \<open>None\<close>.\<close>

definition registers :: "arch \<Rightarrow> string list option" where
  "registers a = (case a of
      I386 \<Rightarrow> Some [''gs'', ''fs'', ''es'', ''ds'', ''edi'', ''esi'', ''ebp'', ''esp'', ''ebx'',
        ''edx'', ''ecx'', ''eax'', ''trapno'', ''err'', ''eip'', ''cs'', ''eflags'',
        ''esp_at_signal'', ''ss'', ''fpstate'']
    | AMD64 \<Rightarrow> Some [''uc_flags'', ''&uc'', ''uc_stack.ss_sp'', ''uc_stack.ss_flags'',
        ''uc_stack.ss_size'', ''r8'', ''r9'', ''r10'', ''r11'', ''r12'', ''r13'', ''r14'', ''r15'',
        ''rdi'', ''rsi'', ''rbp'', ''rbx'', ''rdx'', ''rax'', ''rcx'', ''rsp'', ''rip'', ''eflags'',
        ''csgsfs'', ''err'', ''trapno'', ''oldmask'', ''cr2'', ''&fpstate'', ''__reserved'',
        ''sigmask'']
    | ARM \<Rightarrow> Some [''uc_flags'', ''uc_link'', ''uc_stack.ss_sp'', ''uc_stack.ss_flags'',
        ''uc_stack.ss_size'', ''trap_no'', ''error_code'', ''oldmask'', ''r0'', ''r1'', ''r2'',
        ''r3'', ''r4'', ''r5'', ''r6'', ''r7'', ''r8'', ''r9'', ''r10'', ''fp'', ''ip'', ''sp'',
        ''lr'', ''pc'', ''cpsr'', ''fault_address'', ''uc_sigmask'', ''__unused'',
        ''uc_regspace'']
    | _ \<Rightarrow> None)"

definition defaults :: "arch \<Rightarrow> (string \<times> int) list option" where
  "defaults a = (case a of
      I386 \<Rightarrow> Some [(''cs'', 0x73), (''ss'', 0x7b)]
    | AMD64 \<Rightarrow> Some [(''csgsfs'', 0x33)]
    | ARM \<Rightarrow> Some [(''trap_no'', 0x6), (''cpsr'', 0x40000010)]
    | _ \<Rightarrow> None)"

definition instruction_pointers :: "arch \<Rightarrow> string option" where
  "instruction_pointers a = (case a of
      I386 \<Rightarrow> Some ''eip'' | AMD64 \<Rightarrow> Some ''rip'' | ARM \<Rightarrow> Some ''pc'' | _ \<Rightarrow> None)"

definition stack_pointers :: "arch \<Rightarrow> string option" where
  "stack_pointers a = (case a of
      I386 \<Rightarrow> Some ''esp'' | AMD64 \<Rightarrow> Some ''rsp'' | ARM \<Rightarrow> Some ''sp'' | _ \<Rightarrow> None)"

definition syscall_instructions :: "arch \<Rightarrow> string list" where
  "syscall_instructions a = (case a of
      AMD64 \<Rightarrow> [''int 0x80'', ''syscall'', ''sysenter'']
    | I386 \<Rightarrow> [''int 0x80'', ''syscall'', ''sysenter'']
    | ARM \<Rightarrow> [''svc 0'']
    | AARCH64 \<Rightarrow> [''svc 0'']
    | THUMB \<Rightarrow> [''svc 0'']
    | MIPS \<Rightarrow> [''syscall''])"

text \<open>
  A \<open>SigreturnFrame\<close> is a dict (register name to value) that remembers its architecture.
\<close>

record sigframe =
  frame_arch :: arch
  store :: "string \<rightharpoonup> pyval"

text \<open>
  \<open>SigreturnFrame.__init__\<close>: every register of the architecture is set to 0, then the
  architecture's defaults are written over them (both through \<open>dict.update\<close>, which does
  not go through \<open>__setitem__\<close>). Reading \<open>registers[self.arch]\<close> raises \<open>KeyError\<close> for an
  architecture that has no row.
\<close>

definition update_all :: "(string \<rightharpoonup> pyval) \<Rightarrow> (string \<times> pyval) list \<Rightarrow> (string \<rightharpoonup> pyval)" where
  "update_all m kvs = fold (\<lambda>(k, v) m'. m'(k \<mapsto> v)) kvs m"

definition SigreturnFrame :: "arch \<Rightarrow> error + sigframe" where
  "SigreturnFrame a =
     (case registers a of
        None \<Rightarrow> Inl (KeyError ''arch'')
      | Some rs \<Rightarrow>
          (case defaults a of
             None \<Rightarrow> Inl (KeyError ''arch'')
           | Some ds \<Rightarrow>
               Inr \<lparr> frame_arch = a,
                     store = update_all (update_all Map.empty (map (\<lambda>r. (r, PyInt 0)) rs))
                                        (map (\<lambda>(r, v). (r, PyInt v)) ds) \<rparr>))"

text \<open>
  \<open>value & 0x7\<close> as a truth value. On a Python integer it is the low three bits; on any
  other value of the chain the operator \<open>&\<close> is not defined and Python raises \<open>TypeError\<close>.
\<close>

fun low_bits_set :: "pyval \<Rightarrow> error + bool" where
  "low_bits_set (PyInt v) = Inr (v AND 0x7 \<noteq> 0)"
| "low_bits_set _ = Inl TypeError"

text \<open>
  \<open>SigreturnFrame.__setitem__\<close>, with the frame passed in and returned: \<open>log.error\<close> raises,
  so each failed check leaves with the error and the frame it was given; only when both
  checks pass is the dict written.
\<close>

definition setitem :: "sigframe \<Rightarrow> string \<Rightarrow> pyval \<Rightarrow> error option \<times> sigframe" where
  "setitem self item val =
     (case registers (frame_arch self) of
        None \<Rightarrow> (Some (KeyError ''arch''), self)
      | Some rs \<Rightarrow>
          if item \<notin> set rs then (Some (UnknownRegister item), self)
          else if frame_arch self = ARM \<and> item = ''sp'' then
            (case low_bits_set val of
               Inl e \<Rightarrow> (Some e, self)
             | Inr misaligned \<Rightarrow>
                 if misaligned then (Some ARMStackPointerAlignment, self)
                 else (None, self\<lparr> store := (store self)(item \<mapsto> val) \<rparr>))
          else (None, self\<lparr> store := (store self)(item \<mapsto> val) \<rparr>))"

text \<open>
  Modelled from the spec: \<open>context.bytes\<close> under \<open>context.local(arch=...)\<close> (the module
  \<open>pwnlib.context\<close> is not among the sources): the architecture descriptor's word size, 4
  bytes on the 32-bit architectures and 8 on the 64-bit ones.
\<close>

definition arch_bytes :: "arch \<Rightarrow> nat" where
  "arch_bytes a = (case a of I386 \<Rightarrow> 4 | AMD64 \<Rightarrow> 8 | ARM \<Rightarrow> 4 | AARCH64 \<Rightarrow> 8 | THUMB \<Rightarrow> 4 | MIPS \<Rightarrow> 4)"

text \<open>
  Modelled from the spec: \<open>pwnlib.util.packing.flat\<close> is not among the sources. The spec
  has a frame serialised as the concatenation of each register's value, word-packed: an
  integer becomes one word of \<open>w\<close> bytes, least significant byte first, and a byte string
  passes through verbatim. Any other value cannot be packed.
\<close>

definition pack_word :: "nat \<Rightarrow> int \<Rightarrow> byte list" where
  "pack_word w n = map (\<lambda>i. word_of_int (drop_bit (8 * i) n)) [0..<w]"

fun flat_one :: "nat \<Rightarrow> pyval \<Rightarrow> error + byte list" where
  "flat_one w (PyInt n) = Inr (pack_word w n)"
| "flat_one w (PyStr s) = Inr (map of_char s)"
| "flat_one w _ = Inl FlatError"

fun flat :: "nat \<Rightarrow> pyval list \<Rightarrow> error + byte list" where
  "flat w [] = Inr []"
| "flat w (x # xs) =
     (case flat_one w x of
        Inl e \<Rightarrow> Inl e
      | Inr b \<Rightarrow> (case flat w xs of Inl e \<Rightarrow> Inl e | Inr bs \<Rightarrow> Inr (b @ bs)))"

text \<open>
  \<open>[self[r] for r in self.registers]\<close>: a dict lookup per register, \<open>KeyError\<close> on a
  missing key.
\<close>

fun getitems :: "(string \<rightharpoonup> pyval) \<Rightarrow> string list \<Rightarrow> error + pyval list" where
  "getitems m [] = Inr []"
| "getitems m (r # rs) =
     (case m r of
        None \<Rightarrow> Inl (KeyError r)
      | Some v \<Rightarrow> (case getitems m rs of Inl e \<Rightarrow> Inl e | Inr vs \<Rightarrow> Inr (v # vs)))"

text \<open>\<open>SigreturnFrame.__str__\<close>; \<open>__len__\<close> is the length of its result.\<close>

definition frame_str :: "sigframe \<Rightarrow> error + byte list" where
  "frame_str self =
     (case registers (frame_arch self) of
        None \<Rightarrow> Inl (KeyError ''arch'')
      | Some rs \<Rightarrow>
          (case getitems (store self) rs of
             Inl e \<Rightarrow> Inl e
           | Inr vs \<Rightarrow> flat (arch_bytes (frame_arch self)) vs))"

text \<open>A frame whose registers all hold Python integers.\<close>

fun is_int :: "pyval option \<Rightarrow> bool" where
  "is_int (Some (PyInt n)) = True"
| "is_int _ = False"

definition int_valued :: "sigframe \<Rightarrow> bool" where
  "int_valued self =
     (case registers (frame_arch self) of None \<Rightarrow> False | Some rs \<Rightarrow> list_all (\<lambda>r. is_int (store self r)) rs)"

text \<open>\<open>list.index\<close>, as \<open>get_spindex\<close> uses it: the position of the first occurrence.\<close>

fun index :: "'a list \<Rightarrow> 'a \<Rightarrow> nat" where
  "index [] x = 0"
| "index (y # ys) x = (if y = x then 0 else Suc (index ys x))"

fun int_of :: "pyval option \<Rightarrow> int" where
  "int_of (Some (PyInt n)) = n"
| "int_of _ = 0"

section \<open>rop.py: the chain and its collaborators\<close>

text \<open>
  Modelled from the spec: the classes \<open>ABI\<close> (\<open>pwnlib.abi\<close>) and \<open>Call\<close> (\<open>rop/call.py\<close>)
  are not among the sources. An ABI is what \<open>build\<close> reads of it: the registers that take
  the first arguments, and whether the call expects to resume at the next stack slot. A
  \<open>Call\<close> is a request to set the ABI's register and stack arguments to the given values
  and to transfer control to a target, under a name used for descriptions.
\<close>

record abi =
  register_arguments :: "string list"
  returns :: bool

record call =
  call_name :: string
  target :: pyval
  args :: "pyval list"
  call_abi :: abi

text \<open>
  What \<open>raw\<close> appends to \<open>_chain\<close>: any value, a \<open>Call\<close> or a \<open>SigreturnFrame\<close>; \<open>build\<close>
  tells them apart with \<open>isinstance\<close>.
\<close>

datatype chain_elem = Raw pyval | CallElem call | FrameElem sigframe

record elf =
  symbols :: "string \<rightharpoonup> int"
  elfclass :: nat
  elf_arch :: arch

text \<open>
  The attributes of a \<open>ROP\<close> object. The dict \<open>gadgets\<close> (address to gadget) and the dict
  \<open>pivots\<close> are association lists in iteration order. \<open>leave\<close> is the entry of the
  instance dict under that name: \<open>None\<close> here while nothing has assigned it, and the
  assigned value (a gadget or Python's \<open>None\<close>) once \<open>__load\<close> has run.
\<close>

record rop =
  chain :: "chain_elem list"
  elfs :: "elf list"
  base :: "int option"
  align :: nat
  migrated :: bool
  rop_arch :: arch
  gadgets :: "(int \<times> gadget) list"
  pivots :: "(int \<times> int) list"
  leave :: "pyval option"

text \<open>
  The parts of the package that \<open>rop.py\<close> calls and that are not among the sources are
  parameters of the model: \<open>cyclic.cyclic\<close>, the context's word size and architecture,
  the table \<open>constants\<close>, the ABIs of \<open>pwnlib.abi\<close>, and the outcome of \<open>setRegisters\<close>,
  whose gadget classification, path search and verification belong to \<open>gadgetfinder\<close>.
  \<open>setRegisters\<close> receives the object and the register dict, and either raises or returns
  the ordered groups (combined register name, stack fragment) together with the dict
  \<open>self.gadgets\<close> as \<open>init_classify_and_solver\<close> rebuilt it; of the attributes modelled
  here it assigns no other.
\<close>

record collab =
  cyclic :: "int \<Rightarrow> string"
  context_bytes :: nat
  context_arch :: arch
  constants :: "string \<rightharpoonup> int"
  default_abi :: abi
  sigreturn_abi :: abi
  syscall_register :: "arch \<Rightarrow> string"
  syscall_arguments :: "arch \<Rightarrow> string list"
  setRegisters :: "rop \<Rightarrow> (string \<times> pyval) list
                     \<Rightarrow> error + ((string \<times> pyval list) list \<times> (int \<times> gadget) list)"

text \<open>\<open>d[k] = v\<close> on a dict kept as an association list: an existing key keeps its place.\<close>

fun dict_set :: "('k \<times> 'v) list \<Rightarrow> 'k \<Rightarrow> 'v \<Rightarrow> ('k \<times> 'v) list" where
  "dict_set [] k v = [(k, v)]"
| "dict_set ((k', v') # kvs) k v = (if k' = k then (k, v) # kvs else (k', v') # dict_set kvs k v)"

text \<open>
  \<open>ROP.__init__\<close> for a list of ELF objects: \<open>align\<close> is the largest \<open>elfclass\<close> over 8
  (\<open>max\<close> of an empty sequence raises \<open>ValueError\<close>), the architecture is the first
  ELF's, and the gadgets that the finder returned are stored by address. \<open>__init__\<close>
  assigns no attribute \<open>leave\<close> and does not call \<open>__load\<close>.
\<close>

definition ROP_init :: "elf list \<Rightarrow> int option \<Rightarrow> gadget list \<Rightarrow> error + rop" where
  "ROP_init es b found =
     (case es of
        [] \<Rightarrow> Inl ValueError
      | e # es' \<Rightarrow>
          Inr \<lparr> chain = [], elfs = es, base = b,
                align = fold max (map elfclass es') (elfclass e) div 8,
                migrated = False, rop_arch = elf_arch e,
                gadgets = fold (\<lambda>gad d. dict_set d (address gad) gad) found [],
                pivots = [], leave = None \<rparr>)"

subsection \<open>Searching the gadget set\<close>

text \<open>Truth of a value in \<open>if addr:\<close>. An object without \<open>__len__\<close> or \<open>__nonzero__\<close> is true.\<close>

fun truthy :: "pyval \<Rightarrow> bool" where
  "truthy (PyInt n) = (n \<noteq> 0)"
| "truthy (PyStr s) = (s \<noteq> [])"
| "truthy PyNone = False"
| "truthy _ = True"

datatype order = Size | Regs

text \<open>
  The two keys of \<open>search\<close>, compared as Python compares tuples:
  \<open>(g.move, len(g.regs), g.address)\<close> for \<open>'size'\<close> and
  \<open>(len(g.regs), g.move, g.address)\<close> for \<open>'regs'\<close>.
\<close>

fun key_less :: "order \<Rightarrow> gadget \<Rightarrow> gadget \<Rightarrow> bool" where
  "key_less Size g h =
     (move g < move h
      \<or> (move g = move h
          \<and> (length (regs g) < length (regs h)
              \<or> (length (regs g) = length (regs h) \<and> address g < address h))))"
| "key_less Regs g h =
     (length (regs g) < length (regs h)
      \<or> (length (regs g) = length (regs h)
          \<and> (move g < move h \<or> (move g = move h \<and> address g < address h))))"

text \<open>
  \<open>search_iter\<close>: the gadgets that move the stack pointer by at least \<open>move\<close> bytes and
  touch every register of \<open>regs\<close> (\<open>move or 0\<close> and \<open>regs or ()\<close> are the caller's 0 and
  empty list here).
\<close>

definition search_iter :: "rop \<Rightarrow> int \<Rightarrow> string list \<Rightarrow> gadget list" where
  "search_iter self mv rs =
     map snd (filter (\<lambda>(addr, g). \<not> move g < mv \<and> set rs \<subseteq> set (regs g)) (gadgets self))"

text \<open>\<open>min(matches, key=key)\<close>: the first smallest element; \<open>ValueError\<close> on no match is \<open>None\<close>.\<close>

fun py_min :: "('a \<Rightarrow> 'a \<Rightarrow> bool) \<Rightarrow> 'a list \<Rightarrow> 'a option" where
  "py_min lt [] = None"
| "py_min lt (x # xs) = Some (foldl (\<lambda>best y. if lt y best then y else best) x xs)"

definition search :: "rop \<Rightarrow> int \<Rightarrow> string list \<Rightarrow> order \<Rightarrow> gadget option" where
  "search self mv rs ord = py_min (key_less ord) (search_iter self mv rs)"

subsection \<open>Loading gadgets: stack movement and touched registers\<close>

text \<open>
  The regular expressions of \<open>__load\<close>, matched at the start of the instruction:
  \<open>^pop (.{3})\<close>, \<open>^add .sp, (S+)$\<close> with \<open>S\<close> the class of non-space characters,
  \<open>^ret$\<close> and \<open>^leave$\<close>. A dot matches any character but a newline, and \<open>$\<close> also
  matches before a final newline.
\<close>

definition chomp :: "string \<Rightarrow> string" where
  "chomp s = (if s \<noteq> [] \<and> last s = CHR 0x0A then butlast s else s)"

definition is_space :: "char \<Rightarrow> bool" where
  "is_space c = (c \<in> set [CHR '' '', CHR 0x09, CHR 0x0A, CHR 0x0B, CHR 0x0C, CHR 0x0D])"

definition match_pop :: "string \<Rightarrow> string option" where
  "match_pop insn =
     (if take 4 insn = ''pop '' \<and> 7 \<le> length insn \<and> CHR 0x0A \<notin> set (take 3 (drop 4 insn))
      then Some (take 3 (drop 4 insn)) else None)"

definition match_add :: "string \<Rightarrow> string option" where
  "match_add insn =
     (let rest = chomp (drop 9 insn) in
      if take 4 insn = ''add '' \<and> take 1 (drop 4 insn) \<noteq> [CHR 0x0A] \<and> take 4 (drop 5 insn) = ''sp, ''
         \<and> rest \<noteq> [] \<and> \<not> list_ex is_space rest
      then Some rest else None)"

definition match_ret :: "string \<Rightarrow> bool" where
  "match_ret insn = (chomp insn = ''ret'')"

definition match_leave :: "string \<Rightarrow> bool" where
  "match_leave insn = (chomp insn = ''leave'')"

text \<open>\<open>int(x, 16)\<close>: an optional sign, an optional \<open>0x\<close>, then hexadecimal digits.\<close>

definition hex_digit :: "char \<Rightarrow> int option" where
  "hex_digit c =
     (let n = (of_char c :: nat) in
      if 48 \<le> n \<and> n \<le> 57 then Some (int n - 48)
      else if 97 \<le> n \<and> n \<le> 102 then Some (int n - 87)
      else if 65 \<le> n \<and> n \<le> 70 then Some (int n - 55)
      else None)"

fun hex_digits :: "int \<Rightarrow> string \<Rightarrow> int option" where
  "hex_digits acc [] = Some acc"
| "hex_digits acc (c # cs) =
     (case hex_digit c of None \<Rightarrow> None | Some d \<Rightarrow> hex_digits (16 * acc + d) cs)"

definition int16 :: "string \<Rightarrow> error + int" where
  "int16 s =
     (let (sgn, t) = (if take 1 s = ''-'' then (-1, drop 1 s)
                      else if take 1 s = ''+'' then (1, drop 1 s) else (1, s));
          u = (if take 2 t = ''0x'' \<or> take 2 t = ''0X'' then drop 2 t else t)
      in if u = [] then Inl ValueError
         else (case hex_digits 0 u of None \<Rightarrow> Inl ValueError | Some n \<Rightarrow> Inr (sgn * n)))"

definition frame_regs :: "nat \<Rightarrow> string list" where
  "frame_regs al = (if al = 4 then [''ebp'', ''esp''] else [''rbp'', ''rsp''])"

text \<open>
  The loop over a gadget's instructions: a pop and a return move the stack by \<open>align\<close>, an
  \<open>add\<close> by its immediate, and \<open>leave\<close> by the very large constant that marks it.
\<close>

fun load_insns :: "nat \<Rightarrow> string list \<Rightarrow> int \<Rightarrow> string list \<Rightarrow> error + (int \<times> string list)" where
  "load_insns al [] sp_move rs = Inr (sp_move, rs)"
| "load_insns al (insn # others) sp_move rs =
     (case match_pop insn of
        Some r \<Rightarrow> load_insns al others (sp_move + int al) (rs @ [r])
      | None \<Rightarrow>
          (case match_add insn of
             Some x \<Rightarrow>
               (case int16 x of
                  Inl e \<Rightarrow> Inl e
                | Inr n \<Rightarrow> load_insns al others (sp_move + n) rs)
           | None \<Rightarrow>
               if match_ret insn then load_insns al others (sp_move + int al) rs
               else if match_leave insn then load_insns al others (sp_move + 9999999999) (rs @ frame_regs al)
               else load_insns al others sp_move rs))"

fun load_gadgets :: "nat \<Rightarrow> (int \<times> string list) list \<Rightarrow> (int \<times> gadget) list \<Rightarrow> (int \<times> int) list
                       \<Rightarrow> error + ((int \<times> gadget) list \<times> (int \<times> int) list)" where
  "load_gadgets al [] gs ps = Inr (gs, ps)"
| "load_gadgets al ((addr, ins) # others) gs ps =
     (case load_insns al ins 0 [] of
        Inl e \<Rightarrow> Inl e
      | Inr (sp_move, rs) \<Rightarrow>
          load_gadgets al others
            (dict_set gs addr \<lparr> address = addr, insns = ins, regs = rs, move = sp_move \<rparr>)
            (if set [''rsp'', ''esp''] \<inter> set rs = {} then dict_set ps sp_move addr else ps))"

text \<open>
  The second half of \<open>__load\<close>, from the dict \<open>gadgets\<close> of kept instruction lists (the
  extraction from the ELF files is the collaborator's): it fills \<open>self.gadgets\<close> and
  \<open>self.pivots\<close> and then looks for the \<open>leave\<close> gadget.
\<close>

definition load :: "rop \<Rightarrow> (int \<times> string list) list \<Rightarrow> error + rop" where
  "load self found =
     (case load_gadgets (align self) found [] [] of
        Inl e \<Rightarrow> Inl e
      | Inr (gs, ps) \<Rightarrow>
          (let self1 = self\<lparr> gadgets := gs, pivots := ps \<rparr>;
               lv = search self1 0 (frame_regs (align self)) Regs;
               lv' = (case lv of
                        Some g \<Rightarrow> if regs g \<noteq> frame_regs (align self) then None else Some g
                      | None \<Rightarrow> None)
           in Inr (self1\<lparr> leave := Some (case lv' of Some g \<Rightarrow> PyGadget g | None \<Rightarrow> PyNone) \<rparr>)))"

subsection \<open>Appending to the chain and migrating\<close>

text \<open>
  Methods that mutate the object return the raised error, if any, and the object as the
  method left it. \<open>raw\<close> refuses a migrated chain before it appends.
\<close>

definition raw :: "rop \<Rightarrow> chain_elem \<Rightarrow> error option \<times> rop" where
  "raw self v =
     (if migrated self then (Some CannotAppendMigrated, self)
      else (None, self\<lparr> chain := chain self @ [v] \<rparr>))"

text \<open>One statement after another: the second runs only if the first did not raise.\<close>

definition and_then :: "error option \<times> 's \<Rightarrow> ('s \<Rightarrow> error option \<times> 's) \<Rightarrow> error option \<times> 's" where
  "and_then r f = (case r of (None, s) \<Rightarrow> f s | (Some e, s) \<Rightarrow> (Some e, s))"

text \<open>\<open>a or b\<close> on the results of two searches (a gadget object is true, \<open>None\<close> is false).\<close>

definition py_or :: "'a option \<Rightarrow> 'a option \<Rightarrow> 'a option" where
  "py_or a b = (case a of Some x \<Rightarrow> Some x | None \<Rightarrow> b)"

text \<open>\<open>s.split("_")\<close>, with the piece read so far in \<open>acc\<close>.\<close>

fun split_underscore :: "string \<Rightarrow> string \<Rightarrow> string list" where
  "split_underscore acc [] = [acc]"
| "split_underscore acc (c # cs) =
     (if c = CHR ''_'' then acc # split_underscore [] cs else split_underscore (acc @ [c]) cs)"

definition x86_suffixes :: "string list" where
  "x86_suffixes = [''ax'', ''bx'', ''cx'', ''dx'', ''bp'', ''sp'', ''di'', ''si'',
                   ''r8'', ''r9'', ''10'', ''11'', ''12'', ''13'', ''14'', ''15'']"

text \<open>
  The last two branches of \<open>__getattr__\<close>, which a name reaches that is not in the
  instance dict, is not blacklisted, does not start with \<open>_\<close> or \<open>ret\<close> and is none of
  \<open>int80\<close>, \<open>syscall\<close>, \<open>sysenter\<close>: when the last two characters of every piece between
  underscores are a register suffix, the answer is \<open>search(regs=pieces, order='regs')\<close>;
  otherwise it is the function that calls \<open>self.call(attr, args)\<close>.
\<close>

definition getattr_shorthand :: "rop \<Rightarrow> string \<Rightarrow> pyval" where
  "getattr_shorthand self attr =
     (if list_all (\<lambda>x. drop (length x - 2) x \<in> set x86_suffixes) (split_underscore [] attr)
      then (case search self 0 (split_underscore [] attr) Regs of
              Some g \<Rightarrow> PyGadget g
            | None \<Rightarrow> PyNone)
      else CallShorthand attr)"

text \<open>
  The attribute lookup \<open>self.leave\<close>: the value in the instance dict when \<open>__load\<close> has
  assigned one, and \<open>__getattr__\<close> otherwise, which \<open>leave\<close> passes down to its last two
  branches.
\<close>

definition ROP_leave :: "rop \<Rightarrow> pyval" where
  "ROP_leave self = (case leave self of Some v \<Rightarrow> v | None \<Rightarrow> getattr_shorthand self ''leave'')"

text \<open>
  The argument of \<open>migrate\<close>: an address, or another \<open>ROP\<close> object, for which the source
  takes \<open>self.base\<close>.
\<close>

datatype base_arg = BaseAddr int | BaseROP

fun py_sub :: "pyval \<Rightarrow> int \<Rightarrow> error + pyval" where
  "py_sub (PyInt n) k = Inr (PyInt (n - k))"
| "py_sub _ k = Inl TypeError"

text \<open>
  \<open>migrate\<close>. \<open>self.rsp\<close>, \<open>self.esp\<close>, \<open>self.rbp\<close> and \<open>self.ebp\<close> go through
  \<open>__getattr__\<close>, which answers a register name with \<open>search(regs=[name], order='regs')\<close>;
  \<open>self.leave\<close> is the attribute lookup above, and whatever it yields is tested for truth
  and appended. The \<open>if\<close> takes the stack-pointer pop, the \<open>elif\<close> the base-pointer pop
  with \<open>leave\<close>, the \<open>else\<close> raises; \<open>migrated\<close> is set after the branch, so only when
  nothing was raised.
\<close>

definition migrate :: "rop \<Rightarrow> base_arg \<Rightarrow> error option \<times> rop" where
  "migrate self arg =
     (let next_base = (case arg of
                         BaseAddr n \<Rightarrow> PyInt n
                       | BaseROP \<Rightarrow> (case base self of None \<Rightarrow> PyNone | Some b \<Rightarrow> PyInt b));
          pop_sp = py_or (search self 0 [''rsp''] Regs) (search self 0 [''esp''] Regs);
          pop_bp = py_or (search self 0 [''rbp''] Regs) (search self 0 [''ebp''] Regs);
          cannot = (Some CannotMigrate, self);
          lv = ROP_leave self;
          via_bp = (case pop_bp of
                      Some bp \<Rightarrow>
                        if truthy lv \<and> length (regs bp) = 1 then
                          and_then (raw self (Raw (PyGadget bp)))
                            (\<lambda>s. case py_sub next_base 4 of
                                   Inl e \<Rightarrow> (Some e, s)
                                 | Inr v \<Rightarrow>
                                     and_then (raw s (Raw v)) (\<lambda>s'. raw s' (Raw lv)))
                        else cannot
                    | None \<Rightarrow> cannot);
          emitted = (case pop_sp of
                       Some sp \<Rightarrow>
                         if length (regs sp) = 1 then
                           and_then (raw self (Raw (PyGadget sp))) (\<lambda>s. raw s (Raw next_base))
                         else via_bp
                     | None \<Rightarrow> via_bp)
      in and_then emitted (\<lambda>s. (None, s\<lparr> migrated := True \<rparr>)))"

text \<open>A gadget set with no gadget that pops the register \<open>r\<close> and nothing else.\<close>

definition no_single_pop :: "rop \<Rightarrow> string \<Rightarrow> bool" where
  "no_single_pop self r =
     list_all (\<lambda>(a, g). \<not> (r \<in> set (regs g) \<and> length (regs g) = 1)) (gadgets self)"

subsection \<open>The first pass of build\<close>

text \<open>\<open>DescriptiveStack.next\<close>: the address after the last slot.\<close>

definition stack_next :: "int \<Rightarrow> nat \<Rightarrow> pyval list \<Rightarrow> int" where
  "stack_next addr w st = addr + int (length st * w)"

text \<open>
  \<open>generatePadding\<close>: \<open>cyclic(offset + count)[-count:]\<close>. The slice \<open>[-count:]\<close> keeps the
  last \<open>count\<close> characters, and for \<open>count = 0\<close> it is \<open>[0:]\<close>, the whole string.
\<close>

definition generatePadding :: "collab \<Rightarrow> int \<Rightarrow> nat \<Rightarrow> string" where
  "generatePadding env offset count =
     (let s = cyclic env (offset + int count)
      in if count = 0 then s else drop (length s - count) s)"

text \<open>
  Modelled from the spec: \<open>pwnlib.util.lists.group\<close> is not among the sources. The spec
  has a blob split into word-sized chunks: successive slices of \<open>n\<close> elements, the last
  one as long as what is left. The chunk size is a word size, hence positive; for 0, which
  no context has, there are no chunks here.
\<close>

function group :: "nat \<Rightarrow> 'a list \<Rightarrow> 'a list list" where
  "group n xs = (if n = 0 \<or> xs = [] then [] else take n xs # group n (drop n xs))"
  by pat_completeness auto
termination
  by (relation "measure (\<lambda>(n, xs). length xs)") auto

text \<open>The loop over the stack arguments: the marker becomes the address computed for it.\<close>

fun subst_next :: "int \<Rightarrow> pyval \<Rightarrow> pyval" where
  "subst_next nga NextGadgetAddress = PyInt nga"
| "subst_next nga v = v"

text \<open>\<open>len(range(start, stop, step))\<close> for a positive step.\<close>

definition range_len :: "int \<Rightarrow> int \<Rightarrow> int \<Rightarrow> nat" where
  "range_len start stop step = (if stop \<le> start then 0 else nat ((stop - start + step - 1) div step))"

text \<open>
  \<open>describe\<close> returns a string for an integer, a byte string and a gadget, and \<open>None\<close> for
  the other values of a chain.
\<close>

fun describable :: "pyval \<Rightarrow> bool" where
  "describable (PyInt n) = True"
| "describable (PyStr s) = True"
| "describable (PyGadget g) = True"
| "describable v = False"

text \<open>\<open>dict(zip(keys, values))\<close>: a later value for the same key replaces the earlier one.\<close>

definition py_dict :: "('k \<times> 'v) list \<Rightarrow> ('k \<times> 'v) list" where
  "py_dict kvs = fold (\<lambda>(k, v) d. dict_set d k v) kvs []"

text \<open>
  The description of one group of \<open>setRegisters\<close>: the names joined in the group's key are
  looked up in the register dict (\<open>KeyError\<close> on a missing name) and the descriptions of
  their values are joined with \<open>" | ".join\<close>, which raises \<open>TypeError\<close> on a \<open>None\<close>.
\<close>

fun describe_values :: "(string \<times> pyval) list \<Rightarrow> string list \<Rightarrow> error option" where
  "describe_values regdict [] = None"
| "describe_values regdict (reg # names) =
     (case map_of regdict reg of
        None \<Rightarrow> Some (KeyError reg)
      | Some v \<Rightarrow>
          (case describe_values regdict names of
             Some e \<Rightarrow> Some e
           | None \<Rightarrow> if describable v then None else Some TypeError))"

text \<open>The loop over the groups: each is described, then its fragment extends the stack.\<close>

fun extend_groups :: "(string \<times> pyval) list \<Rightarrow> (string \<times> pyval list) list \<Rightarrow> pyval list
                        \<Rightarrow> error + pyval list" where
  "extend_groups regdict [] st = Inr st"
| "extend_groups regdict ((register, fragment) # groups) st =
     (case describe_values regdict (split_underscore [] register) of
        Some e \<Rightarrow> Inl e
      | None \<Rightarrow> extend_groups regdict groups (st @ fragment))"

text \<open>
  The \<open>Call\<close> branch of the first pass. The descriptions that \<open>stack.describe\<close> records go
  to a dict of their own and never to the stack, so only the errors that computing them
  can raise are kept. \<open>remaining\<close> is the number of chain elements after this one.
\<close>

definition build_call :: "collab \<Rightarrow> int \<Rightarrow> nat \<Rightarrow> call \<Rightarrow> pyval list \<times> rop \<Rightarrow> error + pyval list \<times> rop" where
  "build_call env addr remaining slot state =
     (case state of (st, self) \<Rightarrow>
      let w = context_bytes env;
          registers = py_dict (zip (register_arguments (call_abi slot)) (args slot))
      in case setRegisters env self registers of
           Inl e \<Rightarrow> Inl e
         | Inr (groups, gadgets') \<Rightarrow>
             (case extend_groups registers groups st of
                Inl e \<Rightarrow> Inl e
              | Inr st0 \<Rightarrow>
                  let self1 = self\<lparr> gadgets := gadgets' \<rparr>;
                      st1 = st0 @ [target slot];
                      stackArguments = drop (length (register_arguments (call_abi slot))) (args slot);
                      nextGadgetAddr = stack_next addr w st1 + int (w * length stackArguments)
                  in if returns (call_abi slot) then
                       if remaining \<noteq> 0 then
                         let fix_size = 1 + length stackArguments;
                             fix_bytes = fix_size * w
                         in case search self1 (int fix_bytes) [] Size of
                              None \<Rightarrow> Inl (NoAdjustGadget (int fix_bytes))
                            | Some adjust \<Rightarrow>
                                let nextGadgetAddr' = stack_next addr w st1 + move adjust;
                                    st2 = st1 @ [PyInt (address adjust)];
                                    stackArguments' = stackArguments
                                       @ replicate (range_len (int fix_bytes) (move adjust) (int w)) Padding
                                in Inr (st2 @ map (subst_next nextGadgetAddr') stackArguments', self1)
                       else Inr (st1 @ [Padding] @ map (subst_next nextGadgetAddr) stackArguments, self1)
                     else Inr (st1 @ map (subst_next nextGadgetAddr) stackArguments, self1)))"

text \<open>
  One chain element, in the order of the \<open>isinstance\<close> tests: integer, byte string,
  \<open>SigreturnFrame\<close>, \<open>Call\<close>, anything else. \<open>len(slot) % context.bytes\<close> raises on a
  word size of 0.
\<close>

fun build_slot :: "collab \<Rightarrow> int \<Rightarrow> nat \<Rightarrow> chain_elem \<Rightarrow> pyval list \<times> rop \<Rightarrow> error + pyval list \<times> rop" where
  "build_slot env addr remaining (Raw (PyInt n)) (st, self) = Inr (st @ [PyInt n], self)"
| "build_slot env addr remaining (Raw (PyStr s)) (st, self) =
     (let w = context_bytes env
      in if w = 0 then Inl ZeroDivisionError
         else let s' = s @ generatePadding env (stack_next addr w st) (length s mod w)
              in Inr (st @ map PyStr (group w s'), self))"
| "build_slot env addr remaining (FrameElem f) (st, self) =
     (case registers (frame_arch f) of
        None \<Rightarrow> Inl (KeyError ''arch'')
      | Some rs \<Rightarrow>
          (case getitems (store f) rs of
             Inl e \<Rightarrow> Inl e
           | Inr vs \<Rightarrow> Inr (st @ vs, self)))"
| "build_slot env addr remaining (CallElem c) (st, self) = build_call env addr remaining c (st, self)"
| "build_slot env addr remaining (Raw v) (st, self) = Inr (st @ [v], self)"

fun first_pass :: "collab \<Rightarrow> int \<Rightarrow> chain_elem list \<Rightarrow> pyval list \<times> rop \<Rightarrow> error + pyval list \<times> rop" where
  "first_pass env addr [] state = Inr state"
| "first_pass env addr (slot # rest) state =
     (case build_slot env addr (length rest) slot state of
        Inl e \<Rightarrow> Inl e
      | Inr state' \<Rightarrow> first_pass env addr rest state')"

text \<open>
  \<open>build(base)\<close> up to the end of its first pass: the stack of slots, some still
  placeholders, and the object.
\<close>

definition build_first_pass :: "collab \<Rightarrow> rop \<Rightarrow> int option \<Rightarrow> error + pyval list \<times> rop" where
  "build_first_pass env self b =
     (let addr = (case b of
                    Some a \<Rightarrow> a
                  | None \<Rightarrow> (case base self of Some a \<Rightarrow> a | None \<Rightarrow> 0))
      in first_pass env addr (chain self) ([], self))"

subsection \<open>Adding a call\<close>

fun resolve_symbol :: "elf list \<Rightarrow> string \<Rightarrow> int option" where
  "resolve_symbol [] s = None"
| "resolve_symbol (e # es) s = (case symbols e s of Some a \<Rightarrow> Some a | None \<Rightarrow> resolve_symbol es s)"

text \<open>\<open>resolve\<close>: a name found in an ELF's symbols, an integer as it is, otherwise \<open>None\<close>.\<close>

fun resolve :: "rop \<Rightarrow> pyval \<Rightarrow> pyval" where
  "resolve self (PyStr s) = (case resolve_symbol (elfs self) s of Some a \<Rightarrow> PyInt a | None \<Rightarrow> PyNone)"
| "resolve self (PyInt n) = PyInt n"
| "resolve self v = PyNone"

definition find_gadget :: "rop \<Rightarrow> string list \<Rightarrow> gadget option" where
  "find_gadget self instructions = find (\<lambda>g. insns g = instructions) (map snd (gadgets self))"

text \<open>The \<open>for\<close> \<open>else\<close> loop of \<open>_srop_call\<close>: the first syscall instruction with a gadget.\<close>

fun find_syscall_gadget :: "rop \<Rightarrow> string list \<Rightarrow> gadget option" where
  "find_syscall_gadget self [] = None"
| "find_syscall_gadget self (instruction # rest) =
     (case find_gadget self [instruction] of
        Some g \<Rightarrow> Some g
      | None \<Rightarrow> find_syscall_gadget self rest)"

definition lower_char :: "char \<Rightarrow> char" where
  "lower_char c =
     (let n = (of_char c :: nat) in if 65 \<le> n \<and> n \<le> 90 then char_of (n + 32) else c)"

definition lower :: "string \<Rightarrow> string" where
  "lower s = map lower_char s"

text \<open>
  Modelled from the spec: the constructor \<open>Call(name, target, args, abi)\<close> of \<open>rop/call.py\<close>
  keeps its four arguments; a call made without an ABI gets the collaborator's default one.
\<close>

definition Call :: "collab \<Rightarrow> string \<Rightarrow> pyval \<Rightarrow> pyval list \<Rightarrow> abi option \<Rightarrow> call" where
  "Call env nm tgt arguments ab =
     \<lparr> call_name = nm, target = tgt, args = arguments,
       call_abi = (case ab of Some a \<Rightarrow> a | None \<Rightarrow> default_abi env) \<rparr>"

definition frame_set :: "error + sigframe \<Rightarrow> string \<Rightarrow> pyval \<Rightarrow> error + sigframe" where
  "frame_set fr item val =
     (case fr of
        Inl e \<Rightarrow> Inl e
      | Inr f \<Rightarrow> (case setitem f item val of (Some e, f') \<Rightarrow> Inl e | (None, f') \<Rightarrow> Inr f'))"

text \<open>
  The frame that \<open>_srop_call\<close> fills: \<open>pc\<close> is the syscall gadget, the syscall register the
  number, then one argument register per argument; \<open>constants.SYS_sigreturn\<close> is read in
  between and raises \<open>AttributeError\<close> when it is missing.
\<close>

definition srop_frame :: "collab \<Rightarrow> rop \<Rightarrow> gadget \<Rightarrow> int \<Rightarrow> pyval list \<Rightarrow> error + (sigframe \<times> int)" where
  "srop_frame env self syscall_gadget syscall_number arguments =
     (case instruction_pointers (rop_arch self) of
        None \<Rightarrow> (case SigreturnFrame (rop_arch self) of Inl e \<Rightarrow> Inl e | Inr f \<Rightarrow> Inl (KeyError ''arch''))
      | Some ip \<Rightarrow>
          (case frame_set (frame_set (SigreturnFrame (rop_arch self)) ip (PyGadget syscall_gadget))
                  (syscall_register env (rop_arch self)) (PyInt syscall_number) of
             Inl e \<Rightarrow> Inl e
           | Inr frame \<Rightarrow>
               (case constants env ''SYS_sigreturn'' of
                  None \<Rightarrow> Inl AttributeError
                | Some SYS_sigreturn \<Rightarrow>
                    (case fold (\<lambda>(register, val) fr. frame_set fr register val)
                            (zip (drop 1 (syscall_arguments env (rop_arch self))) arguments)
                            (Inr frame) of
                       Inl e \<Rightarrow> Inl e
                     | Inr frame' \<Rightarrow> Inr (frame', SYS_sigreturn)))))"

text \<open>
  \<open>_srop_call\<close>: \<open>False\<close> when \<open>SYS_\<close> plus the lower-cased name is no constant; otherwise a
  sigreturn call and its frame are appended and the chain is marked migrated.
\<close>

definition srop_call :: "collab \<Rightarrow> rop \<Rightarrow> string \<Rightarrow> pyval list \<Rightarrow> (error + bool) \<times> rop" where
  "srop_call env self resolvable arguments =
     (case constants env (''SYS_'' @ lower resolvable) of
        None \<Rightarrow> (Inr False, self)
      | Some syscall_number \<Rightarrow>
          (case find_syscall_gadget self (syscall_instructions (context_arch env)) of
             None \<Rightarrow> (Inl NoSyscallInstruction, self)
           | Some syscall_gadget \<Rightarrow>
               (case srop_frame env self syscall_gadget syscall_number arguments of
                  Inl e \<Rightarrow> (Inl e, self)
                | Inr (frame, SYS_sigreturn) \<Rightarrow>
                    (case and_then
                            (raw self (CallElem (Call env ''SYS_sigreturn'' (PyGadget syscall_gadget)
                                                   [PyInt SYS_sigreturn] (Some (sigreturn_abi env)))))
                            (\<lambda>s. raw s (FrameElem frame)) of
                       (Some e, s) \<Rightarrow> (Inl e, s)
                     | (None, s) \<Rightarrow> (Inr True, s\<lparr> migrated := True \<rparr>)))))"

text \<open>
  \<open>call\<close>: \<open>addr\<close> is the resolved name, or the argument itself when it is no string (the
  name is then empty). A true \<open>addr\<close> appends the call; otherwise the syscall fallback
  runs, and its \<open>False\<close> raises.
\<close>

fun call_addr :: "rop \<Rightarrow> pyval \<Rightarrow> pyval" where
  "call_addr self (PyStr s) = resolve self (PyStr s)"
| "call_addr self v = v"

fun call_resolvable :: "pyval \<Rightarrow> string" where
  "call_resolvable (PyStr s) = s"
| "call_resolvable v = []"

definition call :: "collab \<Rightarrow> rop \<Rightarrow> pyval \<Rightarrow> pyval list \<Rightarrow> abi option \<Rightarrow> error option \<times> rop" where
  "call env self resolvable arguments ab =
     (if migrated self then (Some CannotAppendMigrated, self)
      else
        let addr = call_addr self resolvable;
            nm = call_resolvable resolvable
        in if truthy addr then raw self (CallElem (Call env nm addr arguments ab))
           else (case srop_call env self nm arguments of
                   (Inl e, s) \<Rightarrow> (Some e, s)
                 | (Inr found, s) \<Rightarrow>
                     if found then (None, s) else (Some (CouldNotResolve nm), s)))"

subsection \<open>The topological sort of the gadget graph\<close>

text \<open>
  The graph is a dict from a node to its successors. It is an association list in
  iteration order here, and so is the dict \<open>indegree\<close>, whose keys appear in the order
  they were first assigned.
\<close>

type_synonym 'a graph = "('a \<times> 'a list) list"

definition dict_del :: "('k \<times> 'v) list \<Rightarrow> 'k \<Rightarrow> ('k \<times> 'v) list" where
  "dict_del d k = filter (\<lambda>(k', v). k' \<noteq> k) d"

text \<open>\<open>d[k] += n\<close> for a key that the dict has.\<close>

definition dict_add :: "('k \<times> int) list \<Rightarrow> 'k \<Rightarrow> int \<Rightarrow> ('k \<times> int) list" where
  "dict_add d k n = map (\<lambda>(k', v). if k' = k then (k', v + n) else (k', v)) d"

text \<open>The first two loops: every node gets in-degree 0, then every edge adds 1 to its end.\<close>

definition init_indegree :: "'a graph \<Rightarrow> ('a \<times> int) list" where
  "init_indegree graph =
     fold (\<lambda>(k, v) d. fold (\<lambda>l d'. dict_set d' l 0) v (dict_set d k 0)) graph []"

definition count_indegree :: "'a graph \<Rightarrow> ('a \<times> int) list \<Rightarrow> ('a \<times> int) list" where
  "count_indegree graph indegree =
     fold (\<lambda>(g, glist) d. fold (\<lambda>gadget d'. dict_add d' gadget 1) glist d) graph indegree"

text \<open>
  The inner loop \<open>for m in graph[n]\<close>: each successor loses one in-degree and joins
  \<open>indegree_zero\<close> when it reaches 0.
\<close>

fun relax :: "'a list \<Rightarrow> ('a \<times> int) list \<times> 'a list \<Rightarrow> ('a \<times> int) list \<times> 'a list" where
  "relax [] (indegree, indegree_zero) = (indegree, indegree_zero)"
| "relax (m # ms) (indegree, indegree_zero) =
     (let indegree' = dict_add indegree m (- 1)
      in relax ms (indegree', if map_of indegree' m = Some 0 then indegree_zero @ [m] else indegree_zero))"

definition graph_size :: "'a graph \<Rightarrow> nat" where
  "graph_size graph = sum_list (map (\<lambda>(k, ms). Suc (length ms)) graph)"

definition edges :: "'a graph \<Rightarrow> nat" where
  "edges graph = sum_list (map (\<lambda>(k, ms). length ms) graph)"

lemma length_relax: "length (snd (relax ms (d, z))) \<le> length z + length ms"
proof (induction ms arbitrary: d z)
  case Nil
  then show ?case by simp
next
  case (Cons m ms)
  let ?d = "dict_add d m (- 1)"
  let ?z = "if map_of ?d m = Some 0 then z @ [m] else z"
  have "length (snd (relax ms (?d, ?z))) \<le> length ?z + length ms"
    by (rule Cons.IH)
  also have "\<dots> \<le> length z + length (m # ms)" by simp
  finally show ?case by (simp add: Let_def)
qed

lemma graph_size_del:
  "map_of graph n = Some ms \<Longrightarrow> graph_size (dict_del graph n) + Suc (length ms) \<le> graph_size graph"
proof (induction graph)
  case Nil
  then show ?case by simp
next
  case (Cons e graph)
  obtain k ks where e: "e = (k, ks)" by (cases e)
  show ?case
  proof (cases "k = n")
    case True
    have "graph_size (dict_del graph n) \<le> graph_size graph"
      by (induction graph) (auto simp: graph_size_def dict_del_def)
    with True Cons.prems e show ?thesis
      by (simp add: graph_size_def dict_del_def)
  next
    case False
    with Cons e show ?thesis
      by (simp add: graph_size_def dict_del_def)
  qed
qed

text \<open>
  The \<open>while\<close> loop: \<open>pop()\<close> takes the last node of \<open>indegree_zero\<close>, the node is
  appended to \<open>top_sorted\<close>, and if it is a key of the graph its successors are relaxed
  and the key deleted. Each round shortens the work list or removes a key with its edges.
\<close>

function top_loop :: "'a list \<Rightarrow> 'a list \<Rightarrow> ('a \<times> int) list \<Rightarrow> 'a graph
                        \<Rightarrow> 'a list \<times> ('a \<times> int) list \<times> 'a graph" where
  "top_loop indegree_zero top_sorted indegree graph =
     (if indegree_zero = [] then (top_sorted, indegree, graph)
      else
        (case map_of graph (last indegree_zero) of
           None \<Rightarrow> top_loop (butlast indegree_zero) (top_sorted @ [last indegree_zero]) indegree graph
         | Some ms \<Rightarrow>
             top_loop (snd (relax ms (indegree, butlast indegree_zero)))
               (top_sorted @ [last indegree_zero])
               (fst (relax ms (indegree, butlast indegree_zero)))
               (dict_del graph (last indegree_zero))))"
  by pat_completeness auto
termination
proof (relation "measure (\<lambda>(z, s, d, g). length z + graph_size g)", goal_cases)
  case 1
  then show ?case by simp
next
  case (2 z s d g)
  then show ?case by (cases z rule: rev_cases) auto
next
  case (3 z s d g ms)
  from 3 have "length (butlast z) < length z" by (cases z rule: rev_cases) auto
  moreover have "length (snd (relax ms (d, butlast z))) \<le> length (butlast z) + length ms"
    by (rule length_relax)
  moreover have "graph_size (dict_del g (last z)) + Suc (length ms) \<le> graph_size g"
    using 3 by (intro graph_size_del) simp
  ultimately show ?case by simp
qed

declare top_loop.simps [simp del]

text \<open>
  The search after the loop: the first node of \<open>indegree\<close> whose in-degree is above 1 and
  that some key of the graph still points to, with the first such key.
\<close>

fun find_edge_to :: "'a graph \<Rightarrow> 'a \<Rightarrow> 'a option" where
  "find_edge_to [] g = None"
| "find_edge_to ((k, glist) # rest) g = (if g \<in> set glist then Some k else find_edge_to rest g)"

fun find_cycle_edge :: "('a \<times> int) list \<Rightarrow> 'a graph \<Rightarrow> ('a \<times> 'a) option" where
  "find_cycle_edge [] graph = None"
| "find_cycle_edge ((g, indeg) # rest) graph =
     (if indeg > 1 then
        (case find_edge_to graph g of
           Some k \<Rightarrow> Some (k, g)
         | None \<Rightarrow> find_cycle_edge rest graph)
      else find_cycle_edge rest graph)"

text \<open>\<open>graph[k].remove(h)\<close> and the record of it in \<open>_global_delete_gadget\<close>.\<close>

definition remove_edge :: "'a graph \<Rightarrow> 'a \<Rightarrow> 'a \<Rightarrow> 'a graph" where
  "remove_edge graph k h = map (\<lambda>(k', glist). if k' = k then (k', remove1 h glist) else (k', glist)) graph"

definition record_deleted :: "'a graph \<Rightarrow> 'a \<Rightarrow> 'a \<Rightarrow> 'a graph" where
  "record_deleted deleted k h =
     (case map_of deleted k of
        None \<Rightarrow> dict_set deleted k [h]
      | Some hs \<Rightarrow> dict_set deleted k (if h \<in> set hs then hs else hs @ [h]))"

text \<open>The function up to the end of its \<open>while\<close> loop.\<close>

definition top_sort_pass :: "'a graph \<Rightarrow> 'a list \<times> ('a \<times> int) list \<times> 'a graph" where
  "top_sort_pass graph =
     (let indegree = count_indegree graph (init_indegree graph);
          indegree_zero = map fst (filter (\<lambda>(g, indeg). indeg = 0) indegree)
      in top_loop indegree_zero [] indegree graph)"

lemma edges_del: "edges (dict_del graph n) \<le> edges graph"
  by (induction graph) (auto simp: edges_def dict_del_def)

lemma top_loop_edges: "edges (snd (snd (top_loop z s d g))) \<le> edges g"
proof (induction z s d g rule: top_loop.induct)
  case (1 z s d g)
  show ?case
  proof (cases "z = []")
    case True
    then show ?thesis by (simp add: top_loop.simps)
  next
    case nz: False
    show ?thesis
    proof (cases "map_of g (last z)")
      case None
      with nz "1.IH"(1) show ?thesis by (simp add: top_loop.simps [of z])
    next
      case (Some ms)
      from "1.IH"(2) [OF nz Some]
      have "edges (snd (snd (top_loop (snd (relax ms (d, butlast z))) (s @ [last z])
                (fst (relax ms (d, butlast z))) (dict_del g (last z)))))
            \<le> edges (dict_del g (last z))" .
      also have "\<dots> \<le> edges g" by (rule edges_del)
      finally show ?thesis using nz Some by (simp add: top_loop.simps [of z])
    qed
  qed
qed

lemma find_edge_to_Some: "find_edge_to graph g = Some k \<Longrightarrow> \<exists>glist. (k, glist) \<in> set graph \<and> g \<in> set glist"
  by (induction graph g rule: find_edge_to.induct) (auto split: if_splits)

lemma find_cycle_edge_Some:
  "find_cycle_edge indegree graph = Some (k, h) \<Longrightarrow> \<exists>glist. (k, glist) \<in> set graph \<and> h \<in> set glist"
  by (induction indegree graph rule: find_cycle_edge.induct)
     (auto split: if_splits option.splits dest: find_edge_to_Some)

lemma edges_remove_edge_le: "edges (remove_edge graph k h) \<le> edges graph"
  by (induction graph) (auto simp: edges_def remove_edge_def length_remove1)

lemma edges_remove_edge:
  "(k, glist) \<in> set graph \<Longrightarrow> h \<in> set glist \<Longrightarrow> edges (remove_edge graph k h) < edges graph"
proof (induction graph)
  case Nil
  then show ?case by simp
next
  case (Cons e graph)
  have le: "edges (remove_edge graph k h) \<le> edges graph" by (rule edges_remove_edge_le)
  show ?case
  proof (cases "e = (k, glist)")
    case True
    from Cons.prems(2) have "length (remove1 h glist) < length glist"
      by (simp add: length_remove1) (cases glist; simp)
    with True le show ?thesis
      by (simp add: edges_def remove_edge_def)
  next
    case False
    with Cons have "edges (remove_edge graph k h) < edges graph" by simp
    moreover obtain k' ms where "e = (k', ms)" by (cases e)
    ultimately show ?thesis
      by (auto simp: edges_def remove_edge_def length_remove1)
  qed
qed

text \<open>
  \<open>__build_top_sort\<close>, with \<open>_global_delete_gadget\<close> passed in and returned. An empty
  graph after the loop returns \<open>top_sorted\<close>. Otherwise one edge into a node of in-degree
  above 1 is deleted and recorded, the function calls itself on what is left of the
  graph, and the two results are concatenated (\<open>None\<close> counting as the empty list). When
  no such edge is found, the two \<open>for\<close> loops end and the function returns \<open>None\<close>. Each
  call has fewer edges than the one before.
\<close>

function build_top_sort :: "'a graph \<Rightarrow> 'a graph \<Rightarrow> 'a list option \<times> 'a graph" where
  "build_top_sort graph deleted =
     (case top_sort_pass graph of
        (top_sorted, indegree, graph') \<Rightarrow>
          if graph' = [] then (Some top_sorted, deleted)
          else
            (case find_cycle_edge indegree graph' of
               None \<Rightarrow> (None, deleted)
             | Some (k, h) \<Rightarrow>
                 (case build_top_sort (remove_edge graph' k h) (record_deleted deleted k h) of
                    (last_result, deleted') \<Rightarrow>
                      (Some (top_sorted @ (case last_result of None \<Rightarrow> [] | Some r \<Rightarrow> r)), deleted'))))"
  by pat_completeness auto
termination
proof (relation "measure (\<lambda>(graph, deleted). edges graph)", goal_cases)
  case 1
  then show ?case by simp
next
  case (2 graph deleted top_sorted rest indegree graph' e k h)
  from 2 have "graph' = snd (snd (top_sort_pass graph))"
    by (metis snd_conv)
  then have "edges graph' \<le> edges graph"
    by (simp only: top_sort_pass_def Let_def top_loop_edges)
  moreover from 2 have "find_cycle_edge indegree graph' = Some (k, h)" by simp
  then obtain glist where "(k, glist) \<in> set graph'" and "h \<in> set glist"
    using find_cycle_edge_Some by fastforce
  then have "edges (remove_edge graph' k h) < edges graph'"
    by (rule edges_remove_edge)
  ultimately show ?case by simp
qed

declare build_top_sort.simps [simp del]

section \<open>Concrete inputs\<close>

text \<open>
  Inputs for the evaluations below: an ELF with one symbol, a \<open>ROP\<close> object built from it
  by \<open>__init__\<close> and \<open>__load\<close> over a given table of instruction lists, and collaborators
  for a 32-bit context. There \<open>cyclic\<close> yields prefixes of the de Bruijn sequence over the
  lower-case letters (as far as 64 characters), and \<open>setRegisters\<close> sets each register
  with a gadget that pops it, followed by the value, and leaves the gadgets as they are.
\<close>

definition example_elf :: "nat \<Rightarrow> arch \<Rightarrow> elf" where
  "example_elf bits a = \<lparr> symbols = [''main'' \<mapsto> 0x8048000], elfclass = bits, elf_arch = a \<rparr>"

definition example_rop :: "nat \<Rightarrow> arch \<Rightarrow> (int \<times> string list) list \<Rightarrow> rop option" where
  "example_rop bits a found =
     (case ROP_init [example_elf bits a] None [] of
        Inl e \<Rightarrow> None
      | Inr r \<Rightarrow> (case load r found of Inl e \<Rightarrow> None | Inr r' \<Rightarrow> Some r'))"

definition pop_gadget :: "string \<Rightarrow> gadget" where
  "pop_gadget r = \<lparr> address = 0x1000, insns = [''pop '' @ r, ''ret''], regs = [r], move = 8 \<rparr>"

definition example_env :: collab where
  "example_env =
     \<lparr> cyclic = (\<lambda>n. take (nat n) ''aaaabaaacaaadaaaeaaafaaagaaahaaaiaaajaaakaaalaaamaaanaaaoaaapaaa''),
       context_bytes = 4,
       context_arch = I386,
       constants = [''SYS_sigreturn'' \<mapsto> 119, ''SYS_execve'' \<mapsto> 11],
       default_abi = \<lparr> register_arguments = [], returns = True \<rparr>,
       sigreturn_abi = \<lparr> register_arguments = [''eax''], returns = False \<rparr>,
       syscall_register = (\<lambda>a. ''eax''),
       syscall_arguments = (\<lambda>a. [''eax'', ''ebx'', ''ecx'', ''edx'', ''esi'', ''edi'', ''ebp'']),
       setRegisters = (\<lambda>self rs. Inr (map (\<lambda>(r, v). (r, [PyGadget (pop_gadget r), v])) rs,
                                         gadgets self)) \<rparr>"

text \<open>
  A call to \<open>0xdead0000\<close> with three arguments under an ABI with one register slot, so
  with one register argument and two stack arguments; \<open>resume\<close> is the ABI's \<open>returns\<close>.
\<close>

definition example_call :: "bool \<Rightarrow> call" where
  "example_call resume =
     \<lparr> call_name = ''target'', target = PyInt 0xdead0000, args = [PyInt 1, PyInt 2, PyInt 3],
       call_abi = \<lparr> register_arguments = [''eax''], returns = resume \<rparr> \<rparr>"

lemmas load_simps =
  example_rop_def ROP_init_def example_elf_def load_def match_pop_def match_add_def
  match_ret_def match_leave_def chomp_def frame_regs_def search_def search_iter_def Let_def
  int16_def hex_digit_def is_space_def

lemma example_rop_empty:
  "example_rop 32 I386 [] =
     Some \<lparr> chain = [], elfs = [example_elf 32 I386], base = None, align = 4, migrated = False,
            rop_arch = I386, gadgets = [], pivots = [], leave = Some PyNone \<rparr>"
  by (simp add: load_simps)

section \<open>Writing a frame register\<close>

lemma and_7_mod_8: "(v AND 0x7 \<noteq> 0) = (v mod 8 \<noteq> 0)" for v :: int
proof -
  have "v AND mask 3 = v mod 2 ^ 3"
    by (simp add: take_bit_eq_mask [symmetric] take_bit_eq_mod)
  then show ?thesis by (simp add: mask_eq_exp_minus_1)
qed

text \<open>
  C5. Writing an integer to a register of a frame raises exactly when the name is not in
  the architecture's register list, or the architecture is ARM, the register is \<open>sp\<close> and
  the value is not a multiple of 8. When it raises, the frame is the one passed in: the
  dict was not written. Otherwise nothing is raised and the dict holds the value at that
  name and is unchanged elsewhere.
\<close>

theorem setitem_raises_iff:
  assumes "registers (frame_arch self) = Some rs"
  shows "(fst (setitem self item (PyInt v)) \<noteq> None) =
           (item \<notin> set rs \<or> (frame_arch self = ARM \<and> item = ''sp'' \<and> v mod 8 \<noteq> 0))
       \<and> (fst (setitem self item (PyInt v)) \<noteq> None \<longrightarrow>
            snd (setitem self item (PyInt v)) = self)
       \<and> (fst (setitem self item (PyInt v)) = None \<longrightarrow>
            snd (setitem self item (PyInt v)) = self\<lparr> store := (store self)(item \<mapsto> PyInt v) \<rparr>)"
  using assms by (auto simp: setitem_def and_7_mod_8)

theorem setitem_raises_iff_witness:
  "\<exists>self. SigreturnFrame ARM = Inr self
      \<and> setitem self ''sp'' (PyInt 12) = (Some ARMStackPointerAlignment, self)
      \<and> setitem self ''rsp'' (PyInt 16) = (Some (UnknownRegister ''rsp''), self)
      \<and> setitem self ''sp'' (PyInt 16) = (None, self\<lparr> store := (store self)(''sp'' \<mapsto> PyInt 16) \<rparr>)"
proof -
  obtain self where f: "SigreturnFrame ARM = Inr self" and a: "frame_arch self = ARM"
    by (simp add: SigreturnFrame_def registers_def defaults_def)
  obtain rs where r: "registers (frame_arch self) = Some rs" and sp: "''sp'' \<in> set rs"
    and rsp: "''rsp'' \<notin> set rs"
    by (simp add: a registers_def)
  have e1: "fst (setitem self ''sp'' (PyInt 12)) = Some ARMStackPointerAlignment"
    using r sp a by (simp add: setitem_def)
  have e2: "fst (setitem self ''rsp'' (PyInt 16)) = Some (UnknownRegister ''rsp'')"
    using r rsp by (simp add: setitem_def)
  from setitem_raises_iff [OF r, of "''sp''" 12] e1
  have 1: "setitem self ''sp'' (PyInt 12) = (Some ARMStackPointerAlignment, self)"
    by (simp add: prod_eq_iff)
  from setitem_raises_iff [OF r, of "''rsp''" 16] e2
  have 2: "setitem self ''rsp'' (PyInt 16) = (Some (UnknownRegister ''rsp''), self)"
    by (simp add: prod_eq_iff)
  from setitem_raises_iff [OF r, of "''sp''" 16] sp a
  have 3: "setitem self ''sp'' (PyInt 16) = (None, self\<lparr> store := (store self)(''sp'' \<mapsto> PyInt 16) \<rparr>)"
    by (simp add: prod_eq_iff)
  from f 1 2 3 show ?thesis by blast
qed

section \<open>Serialising a frame\<close>

lemma length_pack_word: "length (pack_word w n) = w"
  by (simp add: pack_word_def)

lemma getitems_ints:
  "list_all (\<lambda>r. is_int (m r)) rs \<Longrightarrow> getitems m rs = Inr (map (\<lambda>r. PyInt (int_of (m r))) rs)"
proof (induction rs)
  case Nil
  then show ?case by simp
next
  case (Cons r rs)
  from Cons.prems have "is_int (m r)" by simp
  then obtain n where "m r = Some (PyInt n)"
    by (cases "m r" rule: is_int.cases) auto
  with Cons show ?case by simp
qed

lemma flat_ints: "flat w (map (\<lambda>r. PyInt (f r)) rs) = Inr (concat (map (\<lambda>r. pack_word w (f r)) rs))"
  by (induction rs) auto

lemma length_concat_blocks:
  "length (concat (map (\<lambda>r. pack_word w (f r)) rs)) = w * length rs"
  by (induction rs) (auto simp: length_pack_word)

lemma nth_concat_blocks:
  "i < w * length rs \<Longrightarrow>
   concat (map (\<lambda>r. pack_word w (f r)) rs) ! i = pack_word w (f (rs ! (i div w))) ! (i mod w)"
proof (induction rs arbitrary: i)
  case Nil
  then show ?case by simp
next
  case (Cons r rs)
  show ?case
  proof (cases "i < w")
    case True
    then show ?thesis by (simp add: nth_append length_pack_word)
  next
    case False
    then have ge: "w \<le> i" by simp
    from Cons.prems have "0 < w" by (cases w) auto
    from ge Cons.prems have lt: "i - w < w * length rs" by auto
    from ge \<open>0 < w\<close> have d: "i div w = Suc ((i - w) div w)"
      by (simp add: le_div_geq)
    from ge have m: "i mod w = (i - w) mod w"
      by (simp add: le_mod_geq)
    from False Cons.IH [OF lt] show ?thesis
      by (simp add: nth_append length_pack_word d m)
  qed
qed

lemma index_nth: "x \<in> set xs \<Longrightarrow> xs ! index xs x = x"
  by (induction xs) auto

lemma index_less: "x \<in> set xs \<Longrightarrow> index xs x < length xs"
  by (induction xs) auto

lemma registers_distinct: "registers a = Some rs \<Longrightarrow> distinct rs"
  by (cases a) (auto simp: registers_def)


lemma frame_str_ints:
  assumes "registers (frame_arch self) = Some rs" and "int_valued self"
  shows "frame_str self =
           Inr (concat (map (\<lambda>r. pack_word (arch_bytes (frame_arch self)) (int_of (store self r))) rs))"
  using assms by (simp add: frame_str_def int_valued_def getitems_ints flat_ints)

lemma setitem_int_valued:
  assumes "registers (frame_arch self) = Some rs" and "int_valued self"
    and "setitem self item (PyInt v) = (None, self')"
  shows "int_valued self' \<and> frame_arch self' = frame_arch self \<and> item \<in> set rs
         \<and> store self' = (store self)(item \<mapsto> PyInt v)"
  using assms
  by (auto simp: setitem_def int_valued_def list_all_iff split: if_splits)

lemma outside_word: "0 < w \<Longrightarrow> i < w * k \<or> w * k + w \<le> i \<Longrightarrow> i div w \<noteq> k" for w :: nat
proof
  assume w: "0 < w" and out: "i < w * k \<or> w * k + w \<le> i" and eq: "i div w = k"
  have "w * (i div w) \<le> i" by simp
  moreover have "i < w * (i div w) + w"
    using w by (metis add.commute dividend_less_times_div)
  ultimately show False using out eq by auto
qed

text \<open>
  C4. For every architecture with a frame layout and every frame whose registers hold
  integers, the serialisation is word size times number of registers long (80 bytes on
  i386, 248 on amd64). After a successful write of an integer to a register, the new
  serialisation has the same length and agrees with the old one at every byte outside the
  word of that register (word size times the register's position in the layout).
\<close>

theorem frame_str_length_and_write:
  assumes "registers (frame_arch self) = Some rs"
    and "int_valued self"
    and "setitem self item (PyInt v) = (None, self')"
  shows "\<exists>bs bs'. frame_str self = Inr bs \<and> frame_str self' = Inr bs'
           \<and> length bs = arch_bytes (frame_arch self) * length rs
           \<and> length bs' = length bs
           \<and> (frame_arch self = I386 \<longrightarrow> length bs = 80)
           \<and> (frame_arch self = AMD64 \<longrightarrow> length bs = 248)
           \<and> (\<forall>i < length bs.
                 i < arch_bytes (frame_arch self) * index rs item
                 \<or> arch_bytes (frame_arch self) * index rs item + arch_bytes (frame_arch self) \<le> i
                 \<longrightarrow> bs' ! i = bs ! i)"
proof -
  let ?w = "arch_bytes (frame_arch self)"
  let ?bs = "concat (map (\<lambda>r. pack_word ?w (int_of (store self r))) rs)"
  let ?bs' = "concat (map (\<lambda>r. pack_word ?w (int_of (store self' r))) rs)"
  from setitem_int_valued [OF assms]
  have iv': "int_valued self'" and ar: "frame_arch self' = frame_arch self"
    and mem: "item \<in> set rs" and st: "store self' = (store self)(item \<mapsto> PyInt v)"
    by simp_all
  have s: "frame_str self = Inr ?bs"
    by (rule frame_str_ints [OF assms(1,2)])
  have s': "frame_str self' = Inr ?bs'"
    using frame_str_ints [of self' rs] assms(1) iv' ar by simp
  have len: "length ?bs = ?w * length rs" and len': "length ?bs' = ?w * length rs"
    by (rule length_concat_blocks)+
  have w_pos: "0 < ?w"
    by (cases "frame_arch self") (simp_all add: arch_bytes_def)
  have n386: "frame_arch self = I386 \<longrightarrow> ?w = 4 \<and> length rs = 20"
    using assms(1) by (auto simp: arch_bytes_def registers_def)
  have n64: "frame_arch self = AMD64 \<longrightarrow> ?w = 8 \<and> length rs = 31"
    using assms(1) by (auto simp: arch_bytes_def registers_def)
  have l386: "frame_arch self = I386 \<longrightarrow> length ?bs = 80"
    using n386 by (simp only: len) simp
  have l64: "frame_arch self = AMD64 \<longrightarrow> length ?bs = 248"
    using n64 by (simp only: len) simp
  have same: "?bs' ! i = ?bs ! i"
    if i: "i < length ?bs" and out: "i < ?w * index rs item \<or> ?w * index rs item + ?w \<le> i" for i
  proof -
    from i have ib: "i < ?w * length rs" by (simp only: len)
    then have jb: "i div ?w < length rs"
      by (simp add: less_mult_imp_div_less mult.commute)
    have "i div ?w \<noteq> index rs item"
      by (rule outside_word [OF w_pos out])
    then have "rs ! (i div ?w) \<noteq> item"
      using jb mem registers_distinct [OF assms(1)] index_nth [OF mem] index_less [OF mem]
      by (metis nth_eq_iff_index_eq)
    then have "store self' (rs ! (i div ?w)) = store self (rs ! (i div ?w))"
      by (simp add: st)
    then show ?thesis
      by (simp only: nth_concat_blocks [OF ib])
  qed
  show ?thesis
    using s s' len len' l386 l64 same by (intro exI [of _ ?bs] exI [of _ ?bs']) simp
qed


lemma SigreturnFrame_int_valued: "SigreturnFrame a = Inr self \<Longrightarrow> int_valued self \<and> frame_arch self = a"
  by (cases a) (auto simp: SigreturnFrame_def registers_def defaults_def int_valued_def update_all_def)

theorem frame_str_length_and_write_witness:
  "\<exists>self self' bs bs'.
      SigreturnFrame I386 = Inr self
    \<and> setitem self ''eax'' (PyInt 125) = (None, self')
    \<and> frame_str self = Inr bs \<and> frame_str self' = Inr bs'
    \<and> length bs = 80 \<and> length bs' = 80
    \<and> bs' ! 0 = bs ! 0 \<and> bs' ! 43 = bs ! 43 \<and> bs' ! 48 = bs ! 48 \<and> bs' ! 79 = bs ! 79"
proof -
  obtain self where f: "SigreturnFrame I386 = Inr self"
    by (simp add: SigreturnFrame_def registers_def defaults_def)
  then have iv: "int_valued self" and ar: "frame_arch self = I386"
    using SigreturnFrame_int_valued by blast+
  obtain rs where rs: "registers (frame_arch self) = Some rs" and ix: "index rs ''eax'' = 11"
    by (simp add: ar registers_def)
  obtain self' where w: "setitem self ''eax'' (PyInt 125) = (None, self')"
    using rs ar by (auto simp: setitem_def registers_def)
  from frame_str_length_and_write [OF rs iv w] f w ar ix show ?thesis
    by (auto simp: arch_bytes_def)
qed

section \<open>Searching and migrating\<close>

lemma py_min_mem: "py_min lt xs = Some g \<Longrightarrow> g \<in> set xs"
proof (cases xs)
  case Nil
  then show "py_min lt xs = Some g \<Longrightarrow> g \<in> set xs" by simp
next
  case (Cons x ys)
  have "foldl (\<lambda>best y. if lt y best then y else best) b ys \<in> insert b (set ys)" for b
    by (induction ys arbitrary: b) auto
  with Cons show "py_min lt xs = Some g \<Longrightarrow> g \<in> set xs" by auto
qed

lemma search_Some:
  assumes "search self mv rs ord = Some g"
  shows "\<exists>a. (a, g) \<in> set (gadgets self) \<and> mv \<le> move g \<and> set rs \<subseteq> set (regs g)"
proof -
  from assms have "g \<in> set (search_iter self mv rs)"
    by (simp add: search_def py_min_mem)
  then show ?thesis
    by (auto simp: search_iter_def)
qed

text \<open>
  The part of C8 that holds: with no gadget that moves the stack pointer by at least \<open>n\<close>
  bytes, \<open>search(move=n)\<close> has no result, whatever registers and order are asked for.
\<close>

lemma search_move_None:
  assumes "list_all (\<lambda>(a, g). move g < n) (gadgets self)"
  shows "search self n rs ord = None"
proof -
  from assms have "search_iter self n rs = []"
    by (auto simp: search_iter_def list_all_iff filter_empty_conv)
  then show ?thesis by (simp add: search_def)
qed

text \<open>
  C8. \<open>search\<close> can return a gadget whose move is the \<open>leave\<close> constant although the stack
  pointer is not among the requested registers. The gadget set is \<open>pop eax; ret\<close> at
  \<open>0x1000\<close> and \<open>leave; ret\<close> at \<open>0x2000\<close> on a 32-bit object. \<open>search(move=12)\<close>, with no
  register requested, returns the \<open>leave\<close> gadget, whose move is 9999999999 + 4: the large
  constant only makes \<open>min\<close> prefer other candidates, and here there is none.
  \<open>search(regs=['ebp'], order='regs')\<close> returns it too.
\<close>

theorem search_returns_leave_gadget:
  "map_option (\<lambda>r. (search r 12 [] Size, search r 0 [''ebp''] Regs))
     (example_rop 32 I386 [(0x1000, [''pop eax'', ''ret'']), (0x2000, [''leave'', ''ret''])])
   = Some (Some \<lparr> address = 0x2000, insns = [''leave'', ''ret''], regs = [''ebp'', ''esp''],
                   move = 9999999999 + 4 \<rparr>,
           Some \<lparr> address = 0x2000, insns = [''leave'', ''ret''], regs = [''ebp'', ''esp''],
                   move = 9999999999 + 4 \<rparr>)"
  by (simp add: load_simps)

lemma no_single_pop_search:
  assumes "no_single_pop self r" and "search self mv [r] ord = Some g"
  shows "length (regs g) \<noteq> 1"
proof -
  from search_Some [OF assms(2)] obtain a where "(a, g) \<in> set (gadgets self)" and "r \<in> set (regs g)"
    by auto
  with assms(1) show ?thesis
    by (auto simp: no_single_pop_def list_all_iff)
qed

text \<open>
  The part of C7 that holds: when the gadget set has no gadget that pops only the stack
  pointer (\<open>rsp\<close> or \<open>esp\<close>), and either \<open>self.leave\<close> is false or no gadget pops only the
  base pointer (\<open>rbp\<close> or \<open>ebp\<close>), \<open>migrate\<close> raises the cannot-migrate error and the
  object is as it was.
\<close>

lemma migrate_cannot:
  assumes "no_single_pop self ''rsp''" and "no_single_pop self ''esp''"
    and "\<not> truthy (ROP_leave self) \<or> (no_single_pop self ''rbp'' \<and> no_single_pop self ''ebp'')"
  shows "migrate self arg = (Some CannotMigrate, self)"
proof -
  let ?sp = "py_or (search self 0 [''rsp''] Regs) (search self 0 [''esp''] Regs)"
  let ?bp = "py_or (search self 0 [''rbp''] Regs) (search self 0 [''ebp''] Regs)"
  have sp: "length (regs g) \<noteq> 1" if "?sp = Some g" for g
    using that assms(1,2) no_single_pop_search
    by (auto simp: py_or_def split: option.splits)
  have bp: "length (regs g) \<noteq> 1" if "?bp = Some g" and "truthy (ROP_leave self)" for g
    using that assms(3) no_single_pop_search
    by (auto simp: py_or_def split: option.splits)
  show ?thesis
    using sp bp
    by (auto simp: migrate_def Let_def and_then_def split: option.splits)
qed

text \<open>
  C7. Two gadget sets with no gadget that pops only the stack pointer and no \<open>leave\<close>
  gadget, on which \<open>migrate(0x7000)\<close> raises nothing, appends three elements and marks the
  chain migrated. On a 64-bit object as \<open>__init__\<close> builds it, with the one gadget
  \<open>pop rbp; ret\<close>, nothing has assigned \<open>self.leave\<close>, the lookup falls through
  \<open>__getattr__\<close> to the call shorthand, which is true, and that function is appended as the
  third element. On a 32-bit object after \<open>__load\<close>, with the gadgets \<open>pop ebp; ret\<close> and
  \<open>pop ebp; pop esp; ret\<close>, the search for the \<open>leave\<close> gadget by its registers finds the
  two-pop gadget, stores it in \<open>self.leave\<close>, and \<open>migrate\<close> appends it.
\<close>

theorem migrate_without_leave_gadget:
  "map_sum id (\<lambda>r. (no_single_pop r ''rsp'', no_single_pop r ''esp'', leave r,
                     fst (migrate r (BaseAddr 0x7000)),
                     chain (snd (migrate r (BaseAddr 0x7000))),
                     migrated (snd (migrate r (BaseAddr 0x7000)))))
     (ROP_init [example_elf 64 AMD64] None
        [\<lparr> address = 0x1000, insns = [''pop rbp'', ''ret''], regs = [''rbp''], move = 16 \<rparr>])
   = Inr (True, True, None, None,
          [Raw (PyGadget \<lparr> address = 0x1000, insns = [''pop rbp'', ''ret''], regs = [''rbp''],
                             move = 16 \<rparr>),
           Raw (PyInt (0x7000 - 4)),
           Raw (CallShorthand ''leave'')],
          True)
   \<and> map_option (\<lambda>r. (no_single_pop r ''rsp'', no_single_pop r ''esp'',
                       list_ex (\<lambda>(a, g). ''leave'' \<in> set (insns g)) (gadgets r),
                       fst (migrate r (BaseAddr 0x7000)),
                       chain (snd (migrate r (BaseAddr 0x7000))),
                       migrated (snd (migrate r (BaseAddr 0x7000)))))
       (example_rop 32 I386 [(0x1000, [''pop ebp'', ''ret'']), (0x2000, [''pop ebp'', ''pop esp'', ''ret''])])
     = Some (True, True, False, None,
             [Raw (PyGadget \<lparr> address = 0x1000, insns = [''pop ebp'', ''ret''], regs = [''ebp''],
                                move = 8 \<rparr>),
              Raw (PyInt (0x7000 - 4)),
              Raw (PyGadget \<lparr> address = 0x2000, insns = [''pop ebp'', ''pop esp'', ''ret''],
                                regs = [''ebp'', ''esp''], move = 12 \<rparr>)],
             True)"
  by (simp add: load_simps no_single_pop_def migrate_def py_or_def and_then_def raw_def
      ROP_leave_def getattr_shorthand_def x86_suffixes_def)

text \<open>A migration that does not raise marks the chain migrated (the part of C6 that holds).\<close>

lemma migrate_success_sealed: "migrate self arg = (None, s) \<Longrightarrow> migrated s"
  by (auto simp: migrate_def Let_def and_then_def raw_def
           split: option.splits if_splits sum.splits prod.splits)

text \<open>
  C6. On a 64-bit object (\<open>align\<close> is 8) whose gadgets are \<open>pop rbp; ret\<close> at \<open>0x1000\<close> and
  \<open>leave; ret\<close> at \<open>0x2000\<close>, \<open>migrate(0x7000)\<close> takes the base-pointer path and emits
  \<open>0x7000 - 4\<close> between the two gadgets: the new base is lowered by the constant 4, which
  is half a word there, not by \<open>align\<close>. The chain is marked migrated.
\<close>

theorem migrate_base_pointer_offset:
  "map_option (\<lambda>r. (align r, fst (migrate r (BaseAddr 0x7000)),
                     chain (snd (migrate r (BaseAddr 0x7000))),
                     migrated (snd (migrate r (BaseAddr 0x7000)))))
     (example_rop 64 AMD64 [(0x1000, [''pop rbp'', ''ret'']), (0x2000, [''leave'', ''ret''])])
   = Some (8, None,
           [Raw (PyGadget \<lparr> address = 0x1000, insns = [''pop rbp'', ''ret''], regs = [''rbp''],
                              move = 16 \<rparr>),
            Raw (PyInt (0x7000 - 4)),
            Raw (PyGadget \<lparr> address = 0x2000, insns = [''leave'', ''ret''],
                              regs = [''rbp'', ''rsp''], move = 9999999999 + 8 \<rparr>)],
           True)"
  by (simp add: load_simps migrate_def py_or_def and_then_def raw_def ROP_leave_def)

section \<open>The first pass of build\<close>

lemma extend_groups_Inr:
  "extend_groups regdict groups st = Inr st' \<Longrightarrow> st' = st @ concat (map snd groups)"
  by (induction regdict groups st rule: extend_groups.induct) (auto split: option.splits)

text \<open>
  C1, as the code has it. Let \<open>setRegisters\<close> succeed with the groups \<open>groups\<close> and let
  their descriptions raise nothing, so that the groups' fragments are on the stack. For a
  \<open>Call\<close> that is the last element of the chain and whose ABI returns, the first pass
  appends the fragments, the target, exactly one \<open>Padding\<close> and then the stack arguments.
  For a \<open>Call\<close> whose ABI does not return, wherever it stands in the chain, it appends the
  fragments, the target and then the stack arguments, with no padding in between.
\<close>

theorem build_call_padding:
  assumes "setRegisters env self (py_dict (zip (register_arguments (call_abi c)) (args c)))
             = Inr (groups, gadgets')"
    and "extend_groups (py_dict (zip (register_arguments (call_abi c)) (args c))) groups st = Inr st0"
  shows "st0 = st @ concat (map snd groups)
       \<and> (returns (call_abi c) \<longrightarrow>
            build_slot env addr 0 (CallElem c) (st, self) =
              Inr (st0 @ [target c] @ [Padding]
                     @ map (subst_next
                              (stack_next addr (context_bytes env) (st0 @ [target c])
                               + int (context_bytes env
                                      * length (drop (length (register_arguments (call_abi c))) (args c)))))
                         (drop (length (register_arguments (call_abi c))) (args c)),
                   self\<lparr> gadgets := gadgets' \<rparr>))
       \<and> (\<not> returns (call_abi c) \<longrightarrow>
            build_slot env addr remaining (CallElem c) (st, self) =
              Inr (st0 @ [target c]
                     @ map (subst_next
                              (stack_next addr (context_bytes env) (st0 @ [target c])
                               + int (context_bytes env
                                      * length (drop (length (register_arguments (call_abi c))) (args c)))))
                         (drop (length (register_arguments (call_abi c))) (args c)),
                   self\<lparr> gadgets := gadgets' \<rparr>))"
  using assms extend_groups_Inr [OF assms(2)] by (simp add: build_call_def Let_def)

theorem build_call_padding_witness:
  "map_option (\<lambda>r. build_first_pass example_env (r\<lparr> chain := [CallElem (example_call True)] \<rparr>) (Some 0))
     (example_rop 32 I386 [])
   = map_option (\<lambda>r. Inr ([PyGadget (pop_gadget ''eax''), PyInt 1, PyInt 0xdead0000, Padding, PyInt 2, PyInt 3],
                         r\<lparr> chain := [CallElem (example_call True)] \<rparr>))
     (example_rop 32 I386 [])"
proof -
  let ?r = "\<lparr> chain = [], elfs = [example_elf 32 I386], base = None, align = 4, migrated = False,
            rop_arch = I386, gadgets = [], pivots = [], leave = Some PyNone \<rparr>"
  let ?r' = "?r\<lparr> chain := [CallElem (example_call True)] \<rparr>"
  let ?d = "py_dict (zip (register_arguments (call_abi (example_call True))) (args (example_call True)))"
  have d: "?d = [(''eax'', PyInt 1)]"
    by (simp add: example_call_def py_dict_def)
  have s: "setRegisters example_env ?r' ?d = Inr ([(''eax'', [PyGadget (pop_gadget ''eax''), PyInt 1])], [])"
    by (simp add: d) (simp add: example_env_def)
  have e: "extend_groups ?d [(''eax'', [PyGadget (pop_gadget ''eax''), PyInt 1])] []
             = Inr [PyGadget (pop_gadget ''eax''), PyInt 1]"
    by (simp add: d)
  from build_call_padding [OF s e, of 0 0] show ?thesis
    by (simp add: example_rop_empty build_first_pass_def example_call_def)
qed

text \<open>
  C1 as the spec states it fails for a call that does not expect to resume: the call of
  the scenario under an ABI whose \<open>returns\<close> is false is laid out as the register-setting
  gadget, its value, the target and the two stack arguments, with no padding word.
\<close>

theorem build_call_no_padding_counterexample:
  "map_option (\<lambda>r. build_first_pass example_env (r\<lparr> chain := [CallElem (example_call False)] \<rparr>) (Some 0))
     (example_rop 32 I386 [])
   = map_option (\<lambda>r. Inr ([PyGadget (pop_gadget ''eax''), PyInt 1, PyInt 0xdead0000, PyInt 2, PyInt 3],
                         r\<lparr> chain := [CallElem (example_call False)] \<rparr>))
     (example_rop 32 I386 [])
   \<and> example_rop 32 I386 [] \<noteq> None
   \<and> Padding \<notin> set [PyGadget (pop_gadget ''eax''), PyInt 1, PyInt 0xdead0000, PyInt 2, PyInt 3]"
  by (simp add: example_rop_empty build_first_pass_def example_call_def build_call_def example_env_def
      stack_next_def py_dict_def)

text \<open>
  The first pass never touches the chain, the base or the migrated flag of the object, and
  a chain without a \<open>Call\<close> leaves the whole object as it was.
\<close>

lemma build_slot_keeps:
  "build_slot env addr remaining slot (st, self) = Inr (st', self') \<Longrightarrow>
     chain self' = chain self \<and> base self' = base self \<and> migrated self' = migrated self"
  by (cases "(env, addr, remaining, slot, (st, self))" rule: build_slot.cases)
     (auto simp: build_call_def Let_def split: sum.splits option.splits if_splits prod.splits)

lemma build_slot_no_call:
  "build_slot env addr remaining slot (st, self) = Inr (st', self') \<Longrightarrow>
     (\<forall>c. slot \<noteq> CallElem c) \<Longrightarrow> self' = self"
  by (cases "(env, addr, remaining, slot, (st, self))" rule: build_slot.cases)
     (auto simp: Let_def split: sum.splits option.splits if_splits)

lemma first_pass_no_call:
  "first_pass env addr slots (st, self) = Inr (st', self') \<Longrightarrow>
     (\<forall>c. CallElem c \<notin> set slots) \<Longrightarrow> self' = self"
proof (induction slots arbitrary: st self)
  case Nil
  then show ?case by simp
next
  case (Cons slot slots)
  then obtain st1 self1 where 1: "build_slot env addr (length slots) slot (st, self) = Inr (st1, self1)"
    and 2: "first_pass env addr slots (st1, self1) = Inr (st', self')"
    by (auto split: sum.splits)
  from Cons.prems(2) have "\<forall>c. slot \<noteq> CallElem c" and rest: "\<forall>c. CallElem c \<notin> set slots"
    by auto
  with build_slot_no_call [OF 1] have "self1 = self" by simp
  with Cons.IH [OF 2 rest] show ?case by simp
qed

lemma first_pass_keeps:
  "first_pass env addr slots (st, self) = Inr (st', self') \<Longrightarrow>
     chain self' = chain self \<and> base self' = base self \<and> migrated self' = migrated self"
proof (induction slots arbitrary: st self)
  case Nil
  then show ?case by simp
next
  case (Cons slot slots)
  then obtain st1 self1 where 1: "build_slot env addr (length slots) slot (st, self) = Inr (st1, self1)"
    and 2: "first_pass env addr slots (st1, self1) = Inr (st', self')"
    by (auto split: sum.splits)
  from build_slot_keeps [OF 1] Cons.IH [OF 2] show ?case by simp
qed

text \<open>
  C2. With a word size of 4 and base 0, the chain of the one blob \<open>abcde\<close> (5 bytes) is
  laid out as the chunk \<open>abcd\<close> and a second chunk of \<open>e\<close> followed by the padding that
  \<open>generatePadding(0, 1)\<close> returns: \<open>len(slot) % context.bytes\<close> asks for 1 byte of
  padding where 3 are missing. Whatever \<open>cyclic\<close> is, that padding is at most 1 byte, so
  fewer than 8 bytes are appended and the last chunk is not a word. And a blob of exactly
  one word, \<open>abcd\<close>, placed after one integer, is followed by a second chunk of filler:
  the padding count is 0 there and the slice \<open>[-0:]\<close> keeps the whole \<open>cyclic(4)\<close>.
\<close>

theorem blob_not_padded_to_word:
  "build_first_pass (env\<lparr> context_bytes := 4 \<rparr>) (self\<lparr> chain := [Raw (PyStr ''abcde'')] \<rparr>) (Some 0)
     = Inr ([PyStr ''abcd'', PyStr (CHR ''e'' # generatePadding (env\<lparr> context_bytes := 4 \<rparr>) 0 1)],
            self\<lparr> chain := [Raw (PyStr ''abcde'')] \<rparr>)
   \<and> length ''abcd'' + length (CHR ''e'' # generatePadding (env\<lparr> context_bytes := 4 \<rparr>) 0 1) < 8
   \<and> build_first_pass example_env (self\<lparr> chain := [Raw (PyInt 1), Raw (PyStr ''abcd'')] \<rparr>) (Some 0)
     = Inr ([PyInt 1, PyStr ''abcd'', PyStr ''aaaa''],
            self\<lparr> chain := [Raw (PyInt 1), Raw (PyStr ''abcd'')] \<rparr>)"
  by (simp add: build_first_pass_def stack_next_def generatePadding_def Let_def example_env_def)

section \<open>Adding a call whose address is 0 or unknown\<close>

lemma srop_call_chain:
  "\<exists>new. chain (snd (srop_call env self nm arguments)) = chain self @ new
         \<and> (\<forall>c. CallElem c \<in> set new \<longrightarrow> (\<exists>g. target c = PyGadget g))"
  by (auto simp: srop_call_def raw_def and_then_def Call_def
           split: option.splits sum.splits prod.splits if_splits)

lemma srop_call_unknown:
  "constants env (''SYS_'' @ lower nm) = None \<Longrightarrow> srop_call env self nm arguments = (Inr False, self)"
  by (simp add: srop_call_def)

text \<open>
  C10. On a chain that is not migrated, let the address that \<open>call\<close> computes be false
  (\<open>None\<close> for an unknown name, or 0). Then whatever \<open>call\<close> appends to the chain contains no
  \<open>Call\<close> whose target is the integer 0; the outcome of \<open>call\<close> is that of the syscall
  fallback \<open>_srop_call\<close> on the name, with its \<open>False\<close> turned into the could-not-resolve
  error; and when \<open>SYS_\<close> plus the lower-cased name is no constant, \<open>call\<close> raises that error
  and the object, with its chain, is as it was.
\<close>

theorem call_address_zero:
  assumes "\<not> migrated self"
    and "\<not> truthy (call_addr self resolvable)"
  shows "(\<exists>new. chain (snd (call env self resolvable arguments ab)) = chain self @ new
            \<and> (\<forall>c. CallElem c \<in> set new \<longrightarrow> target c \<noteq> PyInt 0))
       \<and> call env self resolvable arguments ab =
           (case srop_call env self (call_resolvable resolvable) arguments of
              (Inl e, s) \<Rightarrow> (Some e, s)
            | (Inr found, s) \<Rightarrow>
                if found then (None, s)
                else (Some (CouldNotResolve (call_resolvable resolvable)), s))
       \<and> (constants env (''SYS_'' @ lower (call_resolvable resolvable)) = None \<longrightarrow>
            call env self resolvable arguments ab =
              (Some (CouldNotResolve (call_resolvable resolvable)), self))"
proof -
  let ?nm = "call_resolvable resolvable"
  have c: "call env self resolvable arguments ab =
           (case srop_call env self ?nm arguments of
              (Inl e, s) \<Rightarrow> (Some e, s)
            | (Inr found, s) \<Rightarrow>
                if found then (None, s) else (Some (CouldNotResolve ?nm), s))"
    using assms by (simp add: call_def Let_def)
  obtain new where n: "chain (snd (srop_call env self ?nm arguments)) = chain self @ new"
    and t: "\<forall>c. CallElem c \<in> set new \<longrightarrow> (\<exists>g. target c = PyGadget g)"
    using srop_call_chain by blast
  have "chain (snd (call env self resolvable arguments ab)) = chain self @ new"
    using n by (auto simp: c split: prod.splits sum.splits)
  moreover have "\<forall>c. CallElem c \<in> set new \<longrightarrow> target c \<noteq> PyInt 0"
    using t by auto
  moreover have "constants env (''SYS_'' @ lower ?nm) = None \<longrightarrow>
      call env self resolvable arguments ab = (Some (CouldNotResolve ?nm), self)"
    by (simp add: c srop_call_unknown)
  ultimately show ?thesis using c by blast
qed

theorem call_address_zero_witness:
  "map_option (\<lambda>r. (migrated r, truthy (call_addr r (PyInt 0)), truthy (call_addr r (PyStr ''nosuch'')),
                     call example_env r (PyInt 0) [] None = (Some (CouldNotResolve []), r),
                     call example_env r (PyStr ''nosuch'') [] None
                       = (Some (CouldNotResolve ''nosuch''), r)))
     (example_rop 32 I386 [])
   = Some (False, False, False, True, True)"
proof -
  obtain r where r: "example_rop 32 I386 [] = Some r" and m: "\<not> migrated r"
    and z: "\<not> truthy (call_addr r (PyInt 0))" and u: "\<not> truthy (call_addr r (PyStr ''nosuch''))"
    by (simp add: example_rop_empty example_elf_def)
  have k0: "constants example_env (''SYS_'' @ lower (call_resolvable (PyInt 0))) = None"
    by (simp add: example_env_def lower_def)
  have k1: "constants example_env (''SYS_'' @ lower (call_resolvable (PyStr ''nosuch''))) = None"
    by (simp add: example_env_def lower_def lower_char_def)
  have c0: "call example_env r (PyInt 0) [] None
              = (Some (CouldNotResolve (call_resolvable (PyInt 0))), r)"
    by (rule call_address_zero [OF m z, THEN conjunct2, THEN conjunct2, THEN mp, OF k0])
  have c1: "call example_env r (PyStr ''nosuch'') [] None
              = (Some (CouldNotResolve (call_resolvable (PyStr ''nosuch''))), r)"
    by (rule call_address_zero [OF m u, THEN conjunct2, THEN conjunct2, THEN mp, OF k1])
  from r m z u c0 c1 show ?thesis by simp
qed

section \<open>The topological sort on graphs with cycles\<close>

lemmas top_sort_simps =
  build_top_sort.simps top_sort_pass_def top_loop.simps init_indegree_def count_indegree_def
  dict_add_def dict_del_def remove_edge_def record_deleted_def Let_def

text \<open>
  C3. The graph of the function's own docstring, with the edges eax to ebx, ebx to eax and
  edx to eax, for which the docstring gives the result edx, eax, ebx: in each of the six
  orders in which the dict can hand out its three keys, the function returns \<open>None\<close>.
  After the loop has taken edx, eax and ebx are left on a cycle with in-degree 1 each, and
  the search for an edge to delete only looks at in-degrees above 1. On the graph with
  the edges a to b, a to c, b to a and c to a the function deletes the edge b to a,
  gets \<open>None\<close> from the recursive call and returns the empty list, which contains none of
  the three nodes.
\<close>

theorem build_top_sort_cycle:
  "map (\<lambda>graph. fst (build_top_sort graph []))
     [[(''eax'', [''ebx'']), (''ebx'', [''eax'']), (''edx'', [''eax''])],
      [(''eax'', [''ebx'']), (''edx'', [''eax'']), (''ebx'', [''eax''])],
      [(''ebx'', [''eax'']), (''eax'', [''ebx'']), (''edx'', [''eax''])],
      [(''ebx'', [''eax'']), (''edx'', [''eax'']), (''eax'', [''ebx''])],
      [(''edx'', [''eax'']), (''eax'', [''ebx'']), (''ebx'', [''eax''])],
      [(''edx'', [''eax'']), (''ebx'', [''eax'']), (''eax'', [''ebx''])]]
   = [None, None, None, None, None, None]
   \<and> build_top_sort [(''a'', [''b'', ''c'']), (''b'', [''a'']), (''c'', [''a''])] []
     = (Some [], [(''b'', [''a''])])"
  by (simp add: top_sort_simps)

text \<open>On a graph without a cycle the function does return an order of all nodes.\<close>

lemma build_top_sort_acyclic_example:
  "build_top_sort [(''a'', [''b'', ''c'']), (''b'', [''c'']), (''c'', [])] []
     = (Some [''a'', ''b'', ''c''], [])"
  by (simp add: top_sort_simps)

end
